theory Spec2Isabelle
  imports Main "HOL-Library.FSet" "HOL-Library.Word"
begin

unbundle bit_operations_syntax

section \<open>Boundary restriction: data model\<close>

text \<open>
  Embedding of \<^verbatim>\<open>framework/src/base/BoundaryRestrictable.C\<close>.

  \<^verbatim>\<open>BoundaryID\<close> and \<^verbatim>\<open>SubdomainID\<close> are integer typedefs declared outside the
  sources at hand; they are integers here. A \<^verbatim>\<open>std::set\<close> is a finite set
  (\<open>fset\<close>); iterating over it visits the elements in ascending order, which is
  \<open>sorted_list_of_fset\<close>.
\<close>

type_synonym BoundaryID = int
type_synonym SubdomainID = int
type_synonym BoundaryName = string

text \<open>
  The constants of namespace \<^verbatim>\<open>Moose\<close> that the file uses. Their values are declared
  elsewhere, so every function takes them as a parameter.
\<close>

record Moose =
  ANY_BOUNDARY_ID :: BoundaryID
  INVALID_BOUNDARY_ID :: BoundaryID
  ANY_BLOCK_ID :: SubdomainID

text \<open>
  The mesh is an external collaborator: \<^verbatim>\<open>getBoundaryIDs(names, generate_unknown)\<close>
  resolves names to ids, \<^verbatim>\<open>meshBoundaryIds()\<close> is the set of ids the mesh knows.
  The problem object hands out its mesh and the current boundary id.
\<close>

record MooseMesh =
  getBoundaryIDs :: "BoundaryName list \<Rightarrow> bool \<Rightarrow> BoundaryID list"
  meshBoundaryIds :: "BoundaryID fset"

record FEProblem =
  mesh :: MooseMesh
  getCurrentBoundaryID :: BoundaryID

text \<open>
  The parameters the class reads: \<^verbatim>\<open>name\<close>, the optional \<^verbatim>\<open>boundary\<close> list
  (\<open>None\<close> when \<^verbatim>\<open>isParamValid("boundary")\<close> is false), the private flag
  \<^verbatim>\<open>_dual_restrictable\<close> (always present, \<^verbatim>\<open>validParams\<close> adds it with value false),
  and the optional pointers \<^verbatim>\<open>_fe_problem\<close> and \<^verbatim>\<open>_mesh\<close>.
\<close>

record InputParameters =
  name :: string
  boundary :: "BoundaryName list option"
  dual_restrictable :: bool
  fe_problem :: "FEProblem option"
  mesh_param :: "MooseMesh option"

text \<open>
  \<^verbatim>\<open>mooseError\<close> aborts with a message. The three messages of the file are three
  constructors; each carries the variable parts of its message: the object's name,
  and for the last one the ids printed after the colon, in the order printed.
\<close>

datatype error =
  MeshPointerMissing
  | AlreadyBlockRestricted string
  | BoundaryIdsNotOnMesh string "BoundaryID list"

text \<open>The data members of the class; a \<^verbatim>\<open>NULL\<close> pointer is \<open>None\<close>.\<close>

record BoundaryRestrictable =
  bnd_feproblem :: "FEProblem option"
  bnd_mesh :: "MooseMesh option"
  bnd_dual_restrictable :: bool
  invalid_boundary_id :: BoundaryID
  boundary_restricted :: bool
  block_ids :: "SubdomainID fset"
  current_boundary_id :: BoundaryID
  bnd_ids :: "BoundaryID fset"
  boundary_names :: "BoundaryName list"

text \<open>
  The enumeration \<^verbatim>\<open>TEST_TYPE\<close> with its values \<^verbatim>\<open>ALL\<close> and \<^verbatim>\<open>ANY\<close> (suffixed: \<open>ALL\<close> is a
  token of the logic's syntax).
\<close>

datatype TEST_TYPE = ALL_TYPE | ANY_TYPE

section \<open>The two standard algorithms on sorted ranges\<close>

text \<open>
  \<^verbatim>\<open>std::set_difference\<close> and \<^verbatim>\<open>std::includes\<close> walk two ascending ranges in
  step. \<open>std_set_difference xs ys\<close> copies the elements of \<open>xs\<close> that are not in
  \<open>ys\<close>; \<open>std_includes xs ys\<close> tells whether every element of \<open>ys\<close> occurs in \<open>xs\<close>.
\<close>

fun std_set_difference :: "'a::linorder list \<Rightarrow> 'a list \<Rightarrow> 'a list" where
  "std_set_difference [] ys = []"
| "std_set_difference (x # xs) [] = x # xs"
| "std_set_difference (x # xs) (y # ys) =
     (if x < y then x # std_set_difference xs (y # ys)
      else if y < x then std_set_difference (x # xs) ys
      else std_set_difference xs ys)"

fun std_includes :: "'a::linorder list \<Rightarrow> 'a list \<Rightarrow> bool" where
  "std_includes xs [] = True"
| "std_includes [] (y # ys) = False"
| "std_includes (x # xs) (y # ys) =
     (if y < x then False
      else if x < y then std_includes xs (y # ys)
      else std_includes xs ys)"

section \<open>Construction\<close>

text \<open>
  \<^verbatim>\<open>initializeBoundaryRestrictable\<close> is a sequence of five blocks, each under its
  own comment in the source. Each block is a function here, and the initialisation
  runs them in the order of the source.

  First block: if the mesh pointer is not defined, but the problem is, the mesh is
  taken from the problem.
\<close>

definition mesh_from_problem :: "BoundaryRestrictable \<Rightarrow> BoundaryRestrictable" where
  "mesh_from_problem this =
     (case bnd_feproblem this of
        Some fe \<Rightarrow> (if bnd_mesh this = None then this\<lparr>bnd_mesh := Some (mesh fe)\<rparr> else this)
      | None \<Rightarrow> this)"

text \<open>
  Second block: if the user supplies boundary names, they are kept, their ids are
  asked from the mesh, and either the any-sentinel (when the reserved name is among
  the names) or these ids are inserted into the set.
\<close>

definition store_supplied_ids ::
  "Moose \<Rightarrow> InputParameters \<Rightarrow> MooseMesh \<Rightarrow> BoundaryRestrictable \<Rightarrow> BoundaryRestrictable" where
  "store_supplied_ids K parameters m this =
     (case boundary parameters of
        None \<Rightarrow> this
      | Some names \<Rightarrow>
         (let vec_ids = getBoundaryIDs m names True
          in if ''ANY_BOUNDARY_ID'' \<in> set names
             then this\<lparr>boundary_names := names,
                        bnd_ids := finsert (ANY_BOUNDARY_ID K) (bnd_ids this)\<rparr>
             else this\<lparr>boundary_names := names,
                        bnd_ids := bnd_ids this |\<union>| fset_of_list vec_ids\<rparr>))"

text \<open>
  Third block: the two nested conditions under which the object is refused for
  being restricted by blocks already.
\<close>

definition block_and_boundary_restricted :: "Moose \<Rightarrow> BoundaryRestrictable \<Rightarrow> bool" where
  "block_and_boundary_restricted K this \<longleftrightarrow>
     (\<not> bnd_dual_restrictable this \<and> bnd_ids this \<noteq> {||} \<and> block_ids this \<noteq> {||})
     \<and> (block_ids this \<noteq> {||} \<and> ANY_BLOCK_ID K |\<notin>| block_ids this)"

text \<open>
  Fourth block: an empty set becomes the any-sentinel, a set with elements marks the
  object restricted.
\<close>

definition store_any_if_empty :: "Moose \<Rightarrow> BoundaryRestrictable \<Rightarrow> BoundaryRestrictable" where
  "store_any_if_empty K this =
     (if bnd_ids this = {||}
      then this\<lparr>bnd_ids := finsert (ANY_BOUNDARY_ID K) (bnd_ids this),
                 boundary_names := [''ANY_BOUNDARY_ID'']\<rparr>
      else this\<lparr>boundary_restricted := True\<rparr>)"

text \<open>
  Fifth block: a set without the any-sentinel is compared with the ids of the mesh;
  the ids left over by \<^verbatim>\<open>std::set_difference\<close> are reported.
\<close>

definition check_ids_on_mesh ::
  "Moose \<Rightarrow> string \<Rightarrow> MooseMesh \<Rightarrow> BoundaryRestrictable \<Rightarrow> error + BoundaryRestrictable" where
  "check_ids_on_mesh K nm m this =
     (if ANY_BOUNDARY_ID K |\<notin>| bnd_ids this
      then
       (let valid_ids = meshBoundaryIds m;
            diff = std_set_difference (sorted_list_of_fset (bnd_ids this))
                     (sorted_list_of_fset valid_ids)
        in if diff \<noteq> [] then Inl (BoundaryIdsNotOnMesh nm diff) else Inr this)
      else Inr this)"

definition initializeBoundaryRestrictable ::
  "Moose \<Rightarrow> InputParameters \<Rightarrow> BoundaryRestrictable \<Rightarrow> error + BoundaryRestrictable" where
  "initializeBoundaryRestrictable K parameters this =
    (let nm = name parameters;
         this1 = mesh_from_problem this
     in case bnd_mesh this1 of
          None \<Rightarrow> Inl MeshPointerMissing
        | Some m \<Rightarrow>
           (let this2 = store_supplied_ids K parameters m this1
            in if block_and_boundary_restricted K this2
               then Inl (AlreadyBlockRestricted nm)
               else check_ids_on_mesh K nm m (store_any_if_empty K this2)))"

text \<open>
  The standard constructor leaves the block ids empty; the dual restricted
  constructor takes them from its caller. Both run the initialisation on the
  freshly built members.
\<close>

definition members ::
  "Moose \<Rightarrow> InputParameters \<Rightarrow> SubdomainID fset \<Rightarrow> BoundaryRestrictable" where
  "members K parameters blocks =
    \<lparr>bnd_feproblem = fe_problem parameters,
     bnd_mesh = mesh_param parameters,
     bnd_dual_restrictable = dual_restrictable parameters,
     invalid_boundary_id = INVALID_BOUNDARY_ID K,
     boundary_restricted = False,
     block_ids = blocks,
     current_boundary_id =
       (case fe_problem parameters of
          None \<Rightarrow> INVALID_BOUNDARY_ID K
        | Some fe \<Rightarrow> getCurrentBoundaryID fe),
     bnd_ids = {||},
     boundary_names = []\<rparr>"

definition BoundaryRestrictable_standard ::
  "Moose \<Rightarrow> InputParameters \<Rightarrow> error + BoundaryRestrictable" where
  "BoundaryRestrictable_standard K parameters =
     initializeBoundaryRestrictable K parameters (members K parameters {||})"

definition BoundaryRestrictable_dual ::
  "Moose \<Rightarrow> InputParameters \<Rightarrow> SubdomainID fset \<Rightarrow> error + BoundaryRestrictable" where
  "BoundaryRestrictable_dual K parameters blocks =
     initializeBoundaryRestrictable K parameters (members K parameters blocks)"

section \<open>Queries\<close>

definition boundaryIDs :: "BoundaryRestrictable \<Rightarrow> BoundaryID fset" where
  "boundaryIDs this = bnd_ids this"

definition boundaryNames :: "BoundaryRestrictable \<Rightarrow> BoundaryName list" where
  "boundaryNames this = boundary_names this"

definition numBoundaryIDs :: "BoundaryRestrictable \<Rightarrow> nat" where
  "numBoundaryIDs this = fcard (bnd_ids this)"

text \<open>\<^verbatim>\<open>hasBoundary(BoundaryID id)\<close>.\<close>

definition hasBoundary :: "Moose \<Rightarrow> BoundaryRestrictable \<Rightarrow> BoundaryID \<Rightarrow> bool" where
  "hasBoundary K this id' =
     (if bnd_ids this = {||} \<or> ANY_BOUNDARY_ID K |\<in>| bnd_ids this then True
      else id' |\<in>| bnd_ids this)"

text \<open>
  The loop of the set overload in its \<^verbatim>\<open>ANY\<close> branch: the first supplied id that
  passes the single-id test returns true, running off the end returns false.
\<close>

fun hasBoundary_loop :: "Moose \<Rightarrow> BoundaryRestrictable \<Rightarrow> BoundaryID list \<Rightarrow> bool" where
  "hasBoundary_loop K this [] = False"
| "hasBoundary_loop K this (it # rest) =
     (let test = hasBoundary K this it
      in if test then True else hasBoundary_loop K this rest)"

text \<open>\<^verbatim>\<open>hasBoundary(std::set<BoundaryID> ids, TEST_TYPE type)\<close>.\<close>

definition hasBoundary_set ::
  "Moose \<Rightarrow> BoundaryRestrictable \<Rightarrow> BoundaryID fset \<Rightarrow> TEST_TYPE \<Rightarrow> bool" where
  "hasBoundary_set K this ids type =
     (if ids = {||} \<or> ANY_BOUNDARY_ID K |\<in>| ids then True
      else if type = ALL_TYPE then
        (if ANY_BOUNDARY_ID K |\<in>| bnd_ids this then True
         else std_includes (sorted_list_of_fset (bnd_ids this)) (sorted_list_of_fset ids))
      else hasBoundary_loop K this (sorted_list_of_fset ids))"

text \<open>\<^verbatim>\<open>hasBoundary(std::vector<BoundaryID> ids, TEST_TYPE type)\<close>.\<close>

definition hasBoundary_vector ::
  "Moose \<Rightarrow> BoundaryRestrictable \<Rightarrow> BoundaryID list \<Rightarrow> TEST_TYPE \<Rightarrow> bool" where
  "hasBoundary_vector K this ids type = hasBoundary_set K this (fset_of_list ids) type"

text \<open>
  \<^verbatim>\<open>isBoundarySubset(std::set<BoundaryID> ids)\<close>. The any-restricted branch asks the
  mesh behind the object's mesh pointer; following a \<^verbatim>\<open>NULL\<close> pointer has no
  result (\<open>None\<close>).
\<close>

definition isBoundarySubset ::
  "Moose \<Rightarrow> BoundaryRestrictable \<Rightarrow> BoundaryID fset \<Rightarrow> bool option" where
  "isBoundarySubset K this ids =
     (if ids = {||} \<or> ANY_BOUNDARY_ID K |\<in>| ids then Some True
      else if ANY_BOUNDARY_ID K |\<in>| bnd_ids this then
        (case bnd_mesh this of
           None \<Rightarrow> None
         | Some m \<Rightarrow> Some (std_includes (sorted_list_of_fset ids)
                             (sorted_list_of_fset (meshBoundaryIds m))))
      else Some (std_includes (sorted_list_of_fset ids) (sorted_list_of_fset (bnd_ids this))))"

text \<open>\<^verbatim>\<open>isBoundarySubset(std::vector<BoundaryID> ids)\<close>.\<close>

definition isBoundarySubset_vector ::
  "Moose \<Rightarrow> BoundaryRestrictable \<Rightarrow> BoundaryID list \<Rightarrow> bool option" where
  "isBoundarySubset_vector K this ids = isBoundarySubset K this (fset_of_list ids)"

section \<open>Property value container\<close>

text \<open>
  Embedding of \<^verbatim>\<open>MaterialProperty<T>\<close>. The values of a property live in a
  \<^verbatim>\<open>MooseArray<T>\<close>, a pointer to storage with a size. Two arrays may point to the
  same storage, so the storage is explicit: a block of cells under each address.
  Indexing is unchecked in the source, and a block has a cell at every index here.
  A stream is the sequence of its bytes.
\<close>

type_synonym addr = nat
type_synonym byte = "8 word"
type_synonym 'v storage = "addr \<Rightarrow> nat \<Rightarrow> 'v"

text \<open>
  Modelled from the spec: \<^verbatim>\<open>MooseArray<T>\<close> (\<^verbatim>\<open>MooseArray.h\<close>) is not among the
  sources. The spec describes a resizable array of per-point values with an element
  count and element access by index, whose shallow copy aliases the underlying
  storage instead of copying it. The array is the address of its storage and its
  element count.
\<close>

record MooseArray =
  arr_data :: addr
  arr_size :: nat

text \<open>
  Modelled from the spec: \<^verbatim>\<open>MooseArray<T>::operator[]\<close> is not among the sources;
  element access by index, without a bounds check. It returns a reference: \<open>MooseArray_at\<close>
  reads through it, \<open>MooseArray_assign\<close> writes through it.
\<close>

definition MooseArray_at :: "'v storage \<Rightarrow> MooseArray \<Rightarrow> nat \<Rightarrow> 'v" where
  "MooseArray_at st a i = st (arr_data a) i"

definition MooseArray_assign :: "'v storage \<Rightarrow> MooseArray \<Rightarrow> nat \<Rightarrow> 'v \<Rightarrow> 'v storage" where
  "MooseArray_assign st a i v = st(arr_data a := (st (arr_data a))(i := v))"


text \<open>
  A \<^verbatim>\<open>MaterialProperty<T>\<close> seen through the type-erased \<^verbatim>\<open>PropertyValue\<close>
  interface: the string \<^verbatim>\<open>type()\<close> returns for \<open>T\<close>, and the member \<^verbatim>\<open>_value\<close>.
\<close>

record MaterialProperty =
  type_name :: string
  prop_value :: MooseArray

definition type' :: "MaterialProperty \<Rightarrow> string" where
  "type' this = type_name this"

definition size' :: "MaterialProperty \<Rightarrow> nat" where
  "size' this = arr_size (prop_value this)"

text \<open>\<^verbatim>\<open>operator[]\<close> of the property: element \<open>i\<close> of the array, read and written.\<close>

definition prop_at :: "'v storage \<Rightarrow> MaterialProperty \<Rightarrow> nat \<Rightarrow> 'v" where
  "prop_at st this i = MooseArray_at st (prop_value this) i"







text \<open>
  \<^verbatim>\<open>store\<close> and \<^verbatim>\<open>load\<close> loop over the elements and leave each element to
  \<^verbatim>\<open>materialPropertyStore<T>\<close> and \<^verbatim>\<open>materialPropertyLoad<T>\<close>, which are declared
  in \<^verbatim>\<open>MaterialPropertyIO.h\<close>, outside the sources at hand. They are parameters:
  \<open>S v\<close> is the bytes written for the value \<open>v\<close>; \<open>L bytes old\<close> is the value of
  the element after reading (it held \<open>old\<close> before) with the bytes left unread.
  An output stream is the bytes written so far, an input stream the bytes not yet
  read.
\<close>

function store_loop ::
  "('v \<Rightarrow> byte list) \<Rightarrow> 'v storage \<Rightarrow> MooseArray \<Rightarrow> nat \<Rightarrow> byte list \<Rightarrow> byte list" where
  "store_loop S st a i stream =
     (if i < arr_size a
      then store_loop S st a (Suc i) (stream @ S (MooseArray_at st a i))
      else stream)"
  by pat_completeness auto
termination
  by (relation "measure (\<lambda>(S, st, a, i, stream). arr_size a - i)") auto

declare store_loop.simps [simp del]

definition store ::
  "('v \<Rightarrow> byte list) \<Rightarrow> 'v storage \<Rightarrow> MaterialProperty \<Rightarrow> byte list \<Rightarrow> byte list" where
  "store S st this stream = store_loop S st (prop_value this) 0 stream"

function load_loop ::
  "(byte list \<Rightarrow> 'v \<Rightarrow> 'v \<times> byte list) \<Rightarrow> MooseArray \<Rightarrow> nat \<Rightarrow> 'v storage \<Rightarrow> byte list
     \<Rightarrow> 'v storage \<times> byte list" where
  "load_loop L a i st stream =
     (if i < arr_size a
      then (case L stream (MooseArray_at st a i) of
              (v, stream') \<Rightarrow> load_loop L a (Suc i) (MooseArray_assign st a i v) stream')
      else (st, stream))"
  by pat_completeness auto
termination
  by (relation "measure (\<lambda>(L, a, i, st, stream). arr_size a - i)") auto

declare load_loop.simps [simp del]

definition load ::
  "(byte list \<Rightarrow> 'v \<Rightarrow> 'v \<times> byte list) \<Rightarrow> 'v storage \<Rightarrow> MaterialProperty \<Rightarrow> byte list
     \<Rightarrow> 'v storage \<times> byte list" where
  "load L st this stream = load_loop L (prop_value this) 0 st stream"

section \<open>Notions used to state the properties\<close>

text \<open>
  The mesh an object built from \<open>parameters\<close> works on: the \<^verbatim>\<open>_mesh\<close> parameter when
  it is given, otherwise the mesh of the \<^verbatim>\<open>_fe_problem\<close> parameter, otherwise none
  (member initialisers of the constructors and the first block of the
  initialisation).
\<close>

definition mesh_of :: "InputParameters \<Rightarrow> MooseMesh option" where
  "mesh_of parameters =
     (case mesh_param parameters of
        Some m \<Rightarrow> Some m
      | None \<Rightarrow> (case fe_problem parameters of Some fe \<Rightarrow> Some (mesh fe) | None \<Rightarrow> None))"

text \<open>
  The set a constructor holds after the second block, before the sentinel is
  substituted for an empty set: nothing without the \<^verbatim>\<open>boundary\<close> parameter, the
  any-sentinel alone when the reserved name is among the names, the ids of the
  names otherwise.
\<close>

definition supplied_ids :: "Moose \<Rightarrow> MooseMesh \<Rightarrow> InputParameters \<Rightarrow> BoundaryID fset" where
  "supplied_ids K m parameters =
     (case boundary parameters of
        None \<Rightarrow> {||}
      | Some names \<Rightarrow>
          if ''ANY_BOUNDARY_ID'' \<in> set names then {|ANY_BOUNDARY_ID K|}
          else fset_of_list (getBoundaryIDs m names True))"


section \<open>Example objects\<close>

text \<open>
  The example of the spec: a mesh that knows the ids 1, 2, 3 and 4 and resolves
  \<open>left\<close> to 2 and \<open>right\<close> to 4 (and, in addition, \<open>bottom\<close> to 1, \<open>top\<close> to 3
  and any other name to the unknown id 9), one instance of the constants, and the
  parameters of an object called \<open>bc\<close> on that mesh.
\<close>

definition example_id :: "BoundaryName \<Rightarrow> BoundaryID" where
  "example_id n =
     (if n = ''left'' then 2 else if n = ''right'' then 4
      else if n = ''bottom'' then 1 else if n = ''top'' then 3 else 9)"

definition example_mesh :: MooseMesh where
  "example_mesh =
     \<lparr>getBoundaryIDs = (\<lambda>names generate_unknown. map example_id names),
      meshBoundaryIds = {|1, 2, 3, 4|}\<rparr>"

definition example_Moose :: Moose where
  "example_Moose = \<lparr>ANY_BOUNDARY_ID = - 1, INVALID_BOUNDARY_ID = - 123, ANY_BLOCK_ID = 65534\<rparr>"

definition example_parameters :: "BoundaryName list option \<Rightarrow> InputParameters" where
  "example_parameters b =
     \<lparr>name = ''bc'', boundary = b, dual_restrictable = False,
      fe_problem = None, mesh_param = Some example_mesh\<rparr>"

text \<open>The object the standard constructor builds for the names \<open>left\<close> and \<open>right\<close>.\<close>

definition example_object :: BoundaryRestrictable where
  "example_object =
     \<lparr>bnd_feproblem = None,
      bnd_mesh = Some example_mesh,
      bnd_dual_restrictable = False,
      invalid_boundary_id = - 123,
      boundary_restricted = True,
      block_ids = {||},
      current_boundary_id = - 123,
      bnd_ids = {|2, 4|},
      boundary_names = [''left'', ''right'']\<rparr>"

text \<open>
  For the property container: a property of element type \<open>t\<close> with \<open>n\<close> elements in
  the storage at address \<open>a\<close>; a storage whose block at address 0 starts with the
  values 7, 4294967295 and 256; and one scalar element type with its two stream
  functions, \<^verbatim>\<open>unsigned int\<close>, written as its four bytes, lowest byte first, and read
  back from four bytes (a read from fewer bytes leaves the value as it was).
\<close>

definition example_property :: "string \<Rightarrow> addr \<Rightarrow> nat \<Rightarrow> MaterialProperty" where
  "example_property t a n = \<lparr>type_name = t, prop_value = \<lparr>arr_data = a, arr_size = n\<rparr>\<rparr>"

definition example_storage :: "32 word storage" where
  "example_storage =
     (\<lambda>b k. if b = 0 then (if k = 0 then 7 else if k = 1 then 4294967295
                             else if k = 2 then 256 else 0)
             else 0)"

definition store_uint :: "32 word \<Rightarrow> byte list" where
  "store_uint v = [ucast v, ucast (drop_bit 8 v), ucast (drop_bit 16 v), ucast (drop_bit 24 v)]"

definition load_uint :: "byte list \<Rightarrow> 32 word \<Rightarrow> 32 word \<times> byte list" where
  "load_uint bytes old =
     (case bytes of
        b0 # b1 # b2 # b3 # rest \<Rightarrow>
          (ucast b0 OR push_bit 8 (ucast b1) OR push_bit 16 (ucast b2) OR push_bit 24 (ucast b3),
           rest)
      | _ \<Rightarrow> (old, []))"

section \<open>The standard algorithms compute the set operations\<close>

lemma set_std_set_difference:
  "sorted xs \<Longrightarrow> distinct xs \<Longrightarrow> sorted ys \<Longrightarrow> distinct ys \<Longrightarrow>
   set (std_set_difference xs ys) = set xs - set ys"
  by (induction xs ys rule: std_set_difference.induct) (auto 4 4)

lemma sorted_std_set_difference:
  "sorted xs \<Longrightarrow> distinct xs \<Longrightarrow> sorted ys \<Longrightarrow> distinct ys \<Longrightarrow>
   sorted (std_set_difference xs ys) \<and> distinct (std_set_difference xs ys)"
  by (induction xs ys rule: std_set_difference.induct) (auto simp: set_std_set_difference)

lemma std_includes_iff:
  "sorted xs \<Longrightarrow> distinct xs \<Longrightarrow> sorted ys \<Longrightarrow> distinct ys \<Longrightarrow>
   std_includes xs ys \<longleftrightarrow> set ys \<subseteq> set xs"
  by (induction xs ys rule: std_includes.induct) (auto 4 4)

lemma sorted_list_of_fset_props:
  "sorted (sorted_list_of_fset A)" "distinct (sorted_list_of_fset A)"
  by (simp_all add: sorted_list_of_fset.rep_eq)

lemma std_set_difference_fset:
  "std_set_difference (sorted_list_of_fset A) (sorted_list_of_fset B) = sorted_list_of_fset (A |-| B)"
proof -
  let ?d = "std_set_difference (sorted_list_of_fset A) (sorted_list_of_fset B)"
  have s: "set ?d = fset (A |-| B)"
    by (simp add: set_std_set_difference sorted_list_of_fset_props)
  have "sorted ?d \<and> distinct ?d"
    by (simp add: sorted_std_set_difference sorted_list_of_fset_props)
  then have "sorted_list_of_set (set ?d) = ?d"
    by (simp add: sorted_list_of_set.idem_if_sorted_distinct)
  then have "sorted_list_of_set (fset (A |-| B)) = ?d"
    by (simp only: s)
  then show ?thesis
    by (simp only: sorted_list_of_fset.rep_eq)
qed

lemma sorted_list_of_fset_Nil_iff: "sorted_list_of_fset A = [] \<longleftrightarrow> A = {||}"
proof
  assume "sorted_list_of_fset A = []"
  then have "fset_of_list (sorted_list_of_fset A) = {||}" by simp
  then show "A = {||}" by (simp only: sorted_list_of_fset_simps)
next
  assume "A = {||}"
  then show "sorted_list_of_fset A = []" by (simp add: sorted_list_of_fset.rep_eq)
qed

lemma std_includes_fset:
  "std_includes (sorted_list_of_fset A) (sorted_list_of_fset B) \<longleftrightarrow> B |\<subseteq>| A"
  by (simp add: std_includes_iff sorted_list_of_fset_props less_eq_fset.rep_eq)

lemma sorted_list_of_fset_lists:
  "set (sorted_list_of_fset D) = fset D \<and> sorted (sorted_list_of_fset D)
   \<and> distinct (sorted_list_of_fset D)"
  by (simp add: sorted_list_of_fset_props)

section \<open>What a constructor returns\<close>

lemma mesh_from_problem_members:
  "mesh_of p = Some m \<Longrightarrow> mesh_from_problem (members K p B) = (members K p B)\<lparr>bnd_mesh := Some m\<rparr>"
  by (auto simp add: mesh_from_problem_def members_def mesh_of_def split: option.splits)

lemma mesh_from_problem_None:
  "mesh_of p = None \<Longrightarrow> bnd_mesh (mesh_from_problem (members K p B)) = None"
  by (auto simp add: mesh_from_problem_def members_def mesh_of_def split: option.splits)

lemma store_supplied_ids_fresh:
  "bnd_ids this = {||} \<Longrightarrow>
   store_supplied_ids K p m this =
     (case boundary p of None \<Rightarrow> this
      | Some names \<Rightarrow> this\<lparr>boundary_names := names, bnd_ids := supplied_ids K m p\<rparr>)"
  by (simp add: store_supplied_ids_def supplied_ids_def split: option.splits)

lemma check_ids_on_mesh_eq:
  "check_ids_on_mesh K nm m this =
    (if ANY_BOUNDARY_ID K |\<notin>| bnd_ids this \<and> bnd_ids this |-| meshBoundaryIds m \<noteq> {||}
     then Inl (BoundaryIdsNotOnMesh nm (sorted_list_of_fset (bnd_ids this |-| meshBoundaryIds m)))
     else Inr this)"
  by (simp add: check_ids_on_mesh_def std_set_difference_fset sorted_list_of_fset_Nil_iff)

lemma dual_no_mesh:
  "mesh_of p = None \<Longrightarrow> BoundaryRestrictable_dual K p B = Inl MeshPointerMissing"
  by (simp add: BoundaryRestrictable_dual_def initializeBoundaryRestrictable_def
      mesh_from_problem_None)

lemma members_simps:
  "bnd_ids (members K p B) = {||}" "block_ids (members K p B) = B"
  "bnd_dual_restrictable (members K p B) = dual_restrictable p"
  "boundary_restricted (members K p B) = False"
  by (simp_all add: members_def)

lemma dual_unfold:
  assumes "mesh_of p = Some m"
  shows "BoundaryRestrictable_dual K p B =
    (if \<not> dual_restrictable p \<and> supplied_ids K m p \<noteq> {||} \<and> B \<noteq> {||} \<and> ANY_BLOCK_ID K |\<notin>| B
     then Inl (AlreadyBlockRestricted (name p))
     else if supplied_ids K m p = {||}
     then Inr ((members K p B)\<lparr>bnd_mesh := Some m, bnd_ids := {|ANY_BOUNDARY_ID K|},
                 boundary_names := [''ANY_BOUNDARY_ID'']\<rparr>)
     else if ANY_BOUNDARY_ID K |\<notin>| supplied_ids K m p \<and> supplied_ids K m p |-| meshBoundaryIds m \<noteq> {||}
     then Inl (BoundaryIdsNotOnMesh (name p) (sorted_list_of_fset (supplied_ids K m p |-| meshBoundaryIds m)))
     else Inr ((members K p B)\<lparr>bnd_mesh := Some m, bnd_ids := supplied_ids K m p,
                 boundary_names := the (boundary p), boundary_restricted := True\<rparr>))"
proof (cases "boundary p")
  case None
  then have "supplied_ids K m p = {||}" by (simp add: supplied_ids_def)
  then show ?thesis using None assms
    by (simp add: BoundaryRestrictable_dual_def initializeBoundaryRestrictable_def
        mesh_from_problem_members store_supplied_ids_fresh members_simps
        block_and_boundary_restricted_def store_any_if_empty_def check_ids_on_mesh_eq)
next
  case (Some names)
  then show ?thesis using assms
    by (simp add: BoundaryRestrictable_dual_def initializeBoundaryRestrictable_def
        mesh_from_problem_members store_supplied_ids_fresh members_simps
        block_and_boundary_restricted_def store_any_if_empty_def check_ids_on_mesh_eq)
qed

lemma standard_eq_dual: "BoundaryRestrictable_standard K p = BoundaryRestrictable_dual K p {||}"
  by (simp add: BoundaryRestrictable_standard_def BoundaryRestrictable_dual_def)

lemma dual_Inr_mesh:
  assumes "BoundaryRestrictable_dual K p B = Inr obj"
  shows "\<exists>m. mesh_of p = Some m"
proof (cases "mesh_of p")
  case None
  then show ?thesis using assms by (simp add: dual_no_mesh)
next
  case (Some m)
  then show ?thesis by simp
qed

lemma dual_Inr_cases:
  assumes "mesh_of p = Some m" "BoundaryRestrictable_dual K p B = Inr obj"
  shows "(supplied_ids K m p = {||}
          \<and> obj = (members K p B)\<lparr>bnd_mesh := Some m, bnd_ids := {|ANY_BOUNDARY_ID K|},
                 boundary_names := [''ANY_BOUNDARY_ID'']\<rparr>)
       \<or> (supplied_ids K m p \<noteq> {||}
          \<and> (ANY_BOUNDARY_ID K |\<in>| supplied_ids K m p \<or> supplied_ids K m p |-| meshBoundaryIds m = {||})
          \<and> obj = (members K p B)\<lparr>bnd_mesh := Some m, bnd_ids := supplied_ids K m p,
                 boundary_names := the (boundary p), boundary_restricted := True\<rparr>)"
proof (cases "supplied_ids K m p = {||}")
  case True
  then show ?thesis
    using assms(2) unfolding dual_unfold [OF assms(1)] by simp
next
  case False
  then show ?thesis
    using assms(2) unfolding dual_unfold [OF assms(1)] by (simp split: if_splits)
qed

lemma dual_Inr_fields:
  assumes "mesh_of p = Some m" "BoundaryRestrictable_dual K p B = Inr obj"
  shows "bnd_ids obj = (if supplied_ids K m p = {||} then {|ANY_BOUNDARY_ID K|} else supplied_ids K m p)"
    and "boundary_restricted obj \<longleftrightarrow> supplied_ids K m p \<noteq> {||}"
    and "bnd_mesh obj = Some m"
proof -
  note c = dual_Inr_cases [OF assms]
  show "bnd_ids obj = (if supplied_ids K m p = {||} then {|ANY_BOUNDARY_ID K|} else supplied_ids K m p)"
    using c by (elim disjE conjE) simp_all
  show "boundary_restricted obj \<longleftrightarrow> supplied_ids K m p \<noteq> {||}"
    using c by (elim disjE conjE) (simp_all add: members_simps)
  show "bnd_mesh obj = Some m"
    using c by (elim disjE conjE) simp_all
qed

lemma supplied_ids_any_name:
  "boundary p = Some names \<Longrightarrow> ''ANY_BOUNDARY_ID'' \<in> set names \<Longrightarrow>
   supplied_ids K m p = {|ANY_BOUNDARY_ID K|}"
  by (simp add: supplied_ids_def)

lemma dual_empty:
  assumes "mesh_of p = Some m" "supplied_ids K m p = {||}"
  shows "BoundaryRestrictable_dual K p B =
           Inr ((members K p B)\<lparr>bnd_mesh := Some m, bnd_ids := {|ANY_BOUNDARY_ID K|},
                 boundary_names := [''ANY_BOUNDARY_ID'']\<rparr>)"
  unfolding dual_unfold [OF assms(1)] using assms(2) by simp

lemma dual_any:
  assumes "mesh_of p = Some m" "ANY_BOUNDARY_ID K |\<in>| supplied_ids K m p"
    and "dual_restrictable p \<or> B = {||} \<or> ANY_BLOCK_ID K |\<in>| B"
  shows "BoundaryRestrictable_dual K p B =
           Inr ((members K p B)\<lparr>bnd_mesh := Some m, bnd_ids := supplied_ids K m p,
                 boundary_names := the (boundary p), boundary_restricted := True\<rparr>)"
proof -
  have ne: "supplied_ids K m p \<noteq> {||}"
    using assms(2) by auto
  show ?thesis
    unfolding dual_unfold [OF assms(1)] using assms(2,3) ne by auto
qed

lemma dual_concrete:
  assumes "mesh_of p = Some m" "ANY_BOUNDARY_ID K |\<notin>| supplied_ids K m p"
    and "dual_restrictable p \<or> B = {||} \<or> ANY_BLOCK_ID K |\<in>| B"
  shows "BoundaryRestrictable_dual K p B =
    (if supplied_ids K m p |-| meshBoundaryIds m \<noteq> {||}
     then Inl (BoundaryIdsNotOnMesh (name p) (sorted_list_of_fset (supplied_ids K m p |-| meshBoundaryIds m)))
     else if supplied_ids K m p = {||}
     then Inr ((members K p B)\<lparr>bnd_mesh := Some m, bnd_ids := {|ANY_BOUNDARY_ID K|},
                 boundary_names := [''ANY_BOUNDARY_ID'']\<rparr>)
     else Inr ((members K p B)\<lparr>bnd_mesh := Some m, bnd_ids := supplied_ids K m p,
                 boundary_names := the (boundary p), boundary_restricted := True\<rparr>))"
proof -
  have c: "\<not> (\<not> dual_restrictable p \<and> supplied_ids K m p \<noteq> {||} \<and> B \<noteq> {||} \<and> ANY_BLOCK_ID K |\<notin>| B)"
    using assms(3) by blast
  have e: "supplied_ids K m p = {||} \<Longrightarrow> supplied_ids K m p |-| meshBoundaryIds m = {||}"
    by simp
  show ?thesis
    unfolding dual_unfold [OF assms(1)] using assms(2) c e by (simp only: if_False if_True simp_thms split: if_splits) auto
qed

lemma dual_Inr_nonempty:
  assumes "BoundaryRestrictable_dual K p B = Inr obj"
  shows "bnd_ids obj \<noteq> {||}"
proof -
  obtain m where m: "mesh_of p = Some m"
    using dual_Inr_mesh [OF assms] by blast
  show ?thesis
    unfolding dual_Inr_fields(1) [OF m assms] by simp
qed

lemma mesh_of_boundary_update: "mesh_of (p\<lparr>boundary := b\<rparr>) = mesh_of p"
  by (simp add: mesh_of_def split: option.splits)

section \<open>What the queries compute\<close>

lemma hasBoundary_loop_iff:
  "hasBoundary_loop K this xs \<longleftrightarrow> (\<exists>i\<in>set xs. hasBoundary K this i)"
  by (induction xs) (auto simp: Let_def)

lemma hasBoundary_nonempty:
  "bnd_ids this \<noteq> {||} \<Longrightarrow>
   hasBoundary K this i \<longleftrightarrow> ANY_BOUNDARY_ID K |\<in>| bnd_ids this \<or> i |\<in>| bnd_ids this"
  by (simp add: hasBoundary_def)

lemma hasBoundary_set_all:
  "hasBoundary_set K this ids ALL_TYPE \<longleftrightarrow>
     ids = {||} \<or> ANY_BOUNDARY_ID K |\<in>| ids \<or> ANY_BOUNDARY_ID K |\<in>| bnd_ids this
     \<or> ids |\<subseteq>| bnd_ids this"
  by (simp add: hasBoundary_set_def std_includes_fset)

lemma hasBoundary_set_any:
  "hasBoundary_set K this ids ANY_TYPE \<longleftrightarrow>
     ids = {||} \<or> ANY_BOUNDARY_ID K |\<in>| ids \<or> (\<exists>i. i |\<in>| ids \<and> hasBoundary K this i)"
  by (simp add: hasBoundary_set_def hasBoundary_loop_iff) blast

section \<open>What the loops of store and load compute\<close>

lemma store_loop_eq:
  "store_loop S st a i stream =
     stream @ concat (map (\<lambda>k. S (MooseArray_at st a k)) [i..<arr_size a])"
proof (induction S st a i stream rule: store_loop.induct)
  case (1 S st a i stream)
  show ?case
  proof (cases "i < arr_size a")
    case True
    then show ?thesis
      using "1.IH" [OF True] by (subst store_loop.simps) (simp add: upt_conv_Cons)
  next
    case False
    then show ?thesis by (subst store_loop.simps) simp
  qed
qed

text \<open>The storage after loading the values \<open>f i, ..., f (n - 1)\<close> into the cells from \<open>i\<close> on.\<close>

lemma load_loop_eq:
  assumes elt: "\<And>v old rest. L (S v @ rest) old = (v, rest)"
  shows "load_loop L a i st (concat (map (\<lambda>k. S (f k)) [i..<arr_size a]) @ rest) =
           (\<lambda>b k. if b = arr_data a \<and> i \<le> k \<and> k < arr_size a then f k else st b k, rest)"
proof (induction "arr_size a - i" arbitrary: i st)
  case 0
  then have ge: "arr_size a \<le> i" by simp
  then have "(\<lambda>b k. if b = arr_data a \<and> i \<le> k \<and> k < arr_size a then f k else st b k) = st"
    by (intro ext) auto
  then show ?case
    using ge by (subst load_loop.simps) simp
next
  case (Suc n)
  then have lt: "i < arr_size a" and n: "n = arr_size a - Suc i"
    by simp_all
  let ?st = "MooseArray_assign st a i (f i)"
  have step: "load_loop L a i st (concat (map (\<lambda>k. S (f k)) [i..<arr_size a]) @ rest) =
      load_loop L a (Suc i) ?st (concat (map (\<lambda>k. S (f k)) [Suc i..<arr_size a]) @ rest)"
    using lt by (subst load_loop.simps) (simp add: upt_conv_Cons elt)
  have fn: "(\<lambda>b k. if b = arr_data a \<and> Suc i \<le> k \<and> k < arr_size a then f k else ?st b k) =
      (\<lambda>b k. if b = arr_data a \<and> i \<le> k \<and> k < arr_size a then f k else st b k)"
    using lt by (intro ext) (auto simp add: MooseArray_assign_def)
  show ?case
    unfolding step Suc.hyps(1) [OF n] fn ..
qed

section \<open>What a shallow copy returns\<close>








section \<open>The example objects\<close>

lemma example_mesh_of: "mesh_of (example_parameters b) = Some example_mesh"
  by (simp add: mesh_of_def example_parameters_def)

lemma example_parameters_simps:
  "name (example_parameters b) = ''bc''"
  "boundary (example_parameters b) = b"
  "dual_restrictable (example_parameters b) = False"
  by (simp_all add: example_parameters_def)

lemma example_Moose_simps:
  "ANY_BOUNDARY_ID example_Moose = - 1"
  "INVALID_BOUNDARY_ID example_Moose = - 123"
  "ANY_BLOCK_ID example_Moose = 65534"
  by (simp_all add: example_Moose_def)

lemma example_supplied_ids:
  "supplied_ids K example_mesh (example_parameters (Some [''left'', ''right''])) = {|2, 4|}"
  "supplied_ids K example_mesh (example_parameters None) = {||}"
  "supplied_ids K example_mesh (example_parameters (Some [])) = {||}"
  "supplied_ids K example_mesh (example_parameters (Some [''ANY_BOUNDARY_ID''])) = {|ANY_BOUNDARY_ID K|}"
  "supplied_ids K example_mesh (example_parameters (Some [''left'', ''ANY_BOUNDARY_ID'', ''nowhere'']))
     = {|ANY_BOUNDARY_ID K|}"
  "supplied_ids K example_mesh (example_parameters (Some [''left'', ''nowhere''])) = {|2, 9|}"
  by (simp_all add: supplied_ids_def example_parameters_def example_mesh_def example_id_def)

lemma example_members:
  "members example_Moose (example_parameters b) B =
     \<lparr>bnd_feproblem = None, bnd_mesh = Some example_mesh, bnd_dual_restrictable = False,
      invalid_boundary_id = - 123, boundary_restricted = False, block_ids = B,
      current_boundary_id = - 123, bnd_ids = {||}, boundary_names = []\<rparr>"
  by (simp add: members_def example_parameters_def example_Moose_def)

lemma example_left_right:
  "BoundaryRestrictable_standard example_Moose (example_parameters (Some [''left'', ''right''])) = Inr example_object"
  unfolding standard_eq_dual dual_unfold [OF example_mesh_of]
  by (simp add: supplied_ids_def example_parameters_def example_mesh_def example_id_def
      example_Moose_def example_object_def members_def)

lemma example_object_simps:
  "bnd_ids example_object = {|2, 4|}"
  "bnd_mesh example_object = Some example_mesh"
  by (simp_all add: example_object_def)

lemma example_property_simps:
  "size' (example_property t a n) = n"
  "type' (example_property t a n) = t"
  "arr_data (prop_value (example_property t a n)) = a"
  by (simp_all add: example_property_def size'_def type'_def)

lemma byte_of_word: "bit (ucast (ucast (drop_bit k v) :: byte) :: 32 word) j \<longleftrightarrow> j < 8 \<and> bit (v :: 32 word) (k + j)"
  by (auto simp add: bit_simps dest: bit_imp_le_length)

lemma uint_bytes:
  "(ucast (ucast v :: byte) OR push_bit 8 (ucast (ucast (drop_bit 8 v) :: byte))
    OR push_bit 16 (ucast (ucast (drop_bit 16 v) :: byte))
    OR push_bit 24 (ucast (ucast (drop_bit 24 v) :: byte))) = (v :: 32 word)"
proof -
  define w0 :: "32 word" where "w0 = ucast (ucast v :: byte)"
  define w1 :: "32 word" where "w1 = push_bit 8 (ucast (ucast (drop_bit 8 v) :: byte))"
  define w2 :: "32 word" where "w2 = push_bit 16 (ucast (ucast (drop_bit 16 v) :: byte))"
  define w3 :: "32 word" where "w3 = push_bit 24 (ucast (ucast (drop_bit 24 v) :: byte))"
  have "w0 OR w1 OR w2 OR w3 = v"
  proof (rule bit_word_eqI)
    fix n :: nat
    assume n: "n < LENGTH(32)"
    have b0: "bit w0 n \<longleftrightarrow> n < 8 \<and> bit v n"
      unfolding w0_def using byte_of_word [of 0 v n] by simp
    have b1: "bit w1 n \<longleftrightarrow> 8 \<le> n \<and> n < 16 \<and> bit v n"
      unfolding w1_def using n by (auto simp add: bit_push_bit_iff byte_of_word)
    have b2: "bit w2 n \<longleftrightarrow> 16 \<le> n \<and> n < 24 \<and> bit v n"
      unfolding w2_def using n by (auto simp add: bit_push_bit_iff byte_of_word)
    have b3: "bit w3 n \<longleftrightarrow> 24 \<le> n \<and> bit v n"
      unfolding w3_def using n by (auto simp add: bit_push_bit_iff byte_of_word)
    have c: "n < 8 \<or> (8 \<le> n \<and> n < 16) \<or> (16 \<le> n \<and> n < 24) \<or> 24 \<le> n"
      by arith
    show "bit (w0 OR w1 OR w2 OR w3) n = bit v n"
      unfolding bit_or_iff b0 b1 b2 b3 using c by blast
  qed
  then show ?thesis
    unfolding w0_def w1_def w2_def w3_def .
qed

lemma load_store_uint: "load_uint (store_uint v @ rest) old = (v, rest)"
  by (simp add: load_uint_def store_uint_def uint_bytes)

section \<open>Claims on construction\<close>

text \<open>
  C1 (amended). On parameters that give a mesh, the constructor fails with the
  dual-restriction error, which names the object, exactly when the dual-restriction
  flag is unset, the set obtained from the supplied boundary names is not empty, and
  the block id set is not empty and does not contain the any-block sentinel. The set
  obtained from the names may be concrete or the any-sentinel of the reserved name:
  the error is not confined to a boundary set that is not "any".
\<close>

theorem dual_restriction_error_iff:
  assumes "mesh_of p = Some m"
  shows "(BoundaryRestrictable_dual K p B = Inl (AlreadyBlockRestricted (name p))
           \<longleftrightarrow> \<not> dual_restrictable p \<and> supplied_ids K m p \<noteq> {||} \<and> B \<noteq> {||} \<and> ANY_BLOCK_ID K |\<notin>| B)
       \<and> (\<forall>n. BoundaryRestrictable_dual K p B = Inl (AlreadyBlockRestricted n) \<longrightarrow> n = name p)"
  unfolding dual_unfold [OF assms] by simp

theorem dual_restriction_error_iff_witness:
  "mesh_of (example_parameters (Some [''left'', ''right''])) = Some example_mesh
   \<and> BoundaryRestrictable_dual example_Moose (example_parameters (Some [''left'', ''right''])) {|1|}
       = Inl (AlreadyBlockRestricted ''bc'')"
proof -
  let ?p = "example_parameters (Some [''left'', ''right''])"
  have m: "mesh_of ?p = Some example_mesh"
    by (rule example_mesh_of)
  have c: "\<not> dual_restrictable ?p \<and> supplied_ids example_Moose example_mesh ?p \<noteq> {||}
           \<and> {|1|} \<noteq> ({||} :: SubdomainID fset) \<and> ANY_BLOCK_ID example_Moose |\<notin>| {|1|}"
    by (simp add: example_parameters_simps example_supplied_ids example_Moose_simps)
  have "BoundaryRestrictable_dual example_Moose ?p {|1|} = Inl (AlreadyBlockRestricted (name ?p))"
    using dual_restriction_error_iff [OF m, of example_Moose "{|1|}"] c by blast
  then show ?thesis
    using m by (simp only: example_parameters_simps simp_thms)
qed

text \<open>
  C1 as stated has the error occur only when the boundary set is not "any". On the
  example mesh, the reserved name alone with the block set \<open>{1}\<close> runs into the
  error, and the boundary set is the any-sentinel.
\<close>

theorem dual_restriction_any_counterexample:
  "BoundaryRestrictable_dual example_Moose (example_parameters (Some [''ANY_BOUNDARY_ID''])) {|1|}
     = Inl (AlreadyBlockRestricted ''bc'')
   \<and> supplied_ids example_Moose example_mesh (example_parameters (Some [''ANY_BOUNDARY_ID'']))
     = {|ANY_BOUNDARY_ID example_Moose|}"
  unfolding dual_unfold [OF example_mesh_of]
  by (simp add: example_supplied_ids example_parameters_simps example_Moose_simps)

text \<open>
  C2. When the reserved name \<^verbatim>\<open>ANY_BOUNDARY_ID\<close> is among the supplied names, whatever
  the other names are, the restriction set is the any-sentinel alone: the standard
  constructor returns an object with that set; the dual restricted constructor
  returns an object with that set unless it fails with the dual-restriction error;
  and in either case the set holds the any-sentinel alone right after the names
  have been stored.
\<close>

theorem any_name_gives_any_sentinel:
  assumes "boundary p = Some names" "''ANY_BOUNDARY_ID'' \<in> set names" "mesh_of p = Some m"
  shows "(\<exists>obj. BoundaryRestrictable_standard K p = Inr obj \<and> bnd_ids obj = {|ANY_BOUNDARY_ID K|})
       \<and> (BoundaryRestrictable_dual K p B = Inl (AlreadyBlockRestricted (name p))
          \<or> (\<exists>obj. BoundaryRestrictable_dual K p B = Inr obj \<and> bnd_ids obj = {|ANY_BOUNDARY_ID K|}))
       \<and> bnd_ids (store_supplied_ids K p m (mesh_from_problem (members K p B))) = {|ANY_BOUNDARY_ID K|}"
proof -
  have s: "supplied_ids K m p = {|ANY_BOUNDARY_ID K|}"
    using assms(1,2) by (rule supplied_ids_any_name)
  have a: "ANY_BOUNDARY_ID K |\<in>| supplied_ids K m p"
    by (simp add: s)
  have std: "\<exists>obj. BoundaryRestrictable_standard K p = Inr obj \<and> bnd_ids obj = {|ANY_BOUNDARY_ID K|}"
    unfolding standard_eq_dual by (simp add: dual_any [OF assms(3) a] s)
  have dual: "BoundaryRestrictable_dual K p B = Inl (AlreadyBlockRestricted (name p))
          \<or> (\<exists>obj. BoundaryRestrictable_dual K p B = Inr obj \<and> bnd_ids obj = {|ANY_BOUNDARY_ID K|})"
  proof (cases "dual_restrictable p \<or> B = {||} \<or> ANY_BLOCK_ID K |\<in>| B")
    case True
    then show ?thesis by (simp add: dual_any [OF assms(3) a] s)
  next
    case False
    then show ?thesis unfolding dual_unfold [OF assms(3)] by (simp add: s)
  qed
  have mid: "bnd_ids (store_supplied_ids K p m (mesh_from_problem (members K p B))) = {|ANY_BOUNDARY_ID K|}"
    using assms(1)
    by (simp add: mesh_from_problem_members [OF assms(3)] store_supplied_ids_fresh members_simps s)
  show ?thesis using std dual mid by blast
qed

theorem any_name_gives_any_sentinel_witness:
  "boundary (example_parameters (Some [''left'', ''ANY_BOUNDARY_ID'', ''nowhere'']))
     = Some [''left'', ''ANY_BOUNDARY_ID'', ''nowhere'']
   \<and> ''ANY_BOUNDARY_ID'' \<in> set [''left'', ''ANY_BOUNDARY_ID'', ''nowhere'']
   \<and> mesh_of (example_parameters (Some [''left'', ''ANY_BOUNDARY_ID'', ''nowhere''])) = Some example_mesh
   \<and> (\<exists>obj. BoundaryRestrictable_standard example_Moose
               (example_parameters (Some [''left'', ''ANY_BOUNDARY_ID'', ''nowhere''])) = Inr obj
             \<and> bnd_ids obj = {|- 1|})"
proof -
  let ?p = "example_parameters (Some [''left'', ''ANY_BOUNDARY_ID'', ''nowhere''])"
  have b: "boundary ?p = Some [''left'', ''ANY_BOUNDARY_ID'', ''nowhere'']"
    by (simp add: example_parameters_simps)
  have n: "''ANY_BOUNDARY_ID'' \<in> set [''left'', ''ANY_BOUNDARY_ID'', ''nowhere'']"
    by simp
  have "\<exists>obj. BoundaryRestrictable_standard example_Moose ?p = Inr obj
             \<and> bnd_ids obj = {|ANY_BOUNDARY_ID example_Moose|}"
    using any_name_gives_any_sentinel [OF b n example_mesh_of, of example_Moose] by blast
  then have "\<exists>obj. BoundaryRestrictable_standard example_Moose ?p = Inr obj \<and> bnd_ids obj = {|- 1|}"
    by (simp only: example_Moose_simps)
  then show ?thesis
    using b n example_mesh_of by blast
qed

text \<open>
  C3. Without the \<^verbatim>\<open>boundary\<close> parameter, or with an empty list of names (which the
  mesh resolves to no ids), both constructors return an object whose restriction
  set is the any-sentinel alone and which is not marked restricted. And no object
  a constructor returns has an empty restriction set.
\<close>

theorem empty_input_is_any_and_unrestricted:
  assumes "mesh_of p = Some m"
    and "boundary p = None \<or> (boundary p = Some [] \<and> getBoundaryIDs m [] True = [])"
  shows "(\<exists>obj. BoundaryRestrictable_standard K p = Inr obj
                \<and> bnd_ids obj = {|ANY_BOUNDARY_ID K|} \<and> \<not> boundary_restricted obj)
       \<and> (\<exists>obj. BoundaryRestrictable_dual K p B = Inr obj
                \<and> bnd_ids obj = {|ANY_BOUNDARY_ID K|} \<and> \<not> boundary_restricted obj)
       \<and> (\<forall>q obj. BoundaryRestrictable_standard K q = Inr obj \<longrightarrow> bnd_ids obj \<noteq> {||})
       \<and> (\<forall>q C obj. BoundaryRestrictable_dual K q C = Inr obj \<longrightarrow> bnd_ids obj \<noteq> {||})"
proof -
  have s: "supplied_ids K m p = {||}"
    using assms(2) by (auto simp add: supplied_ids_def)
  have d: "\<exists>obj. BoundaryRestrictable_dual K p C = Inr obj
                \<and> bnd_ids obj = {|ANY_BOUNDARY_ID K|} \<and> \<not> boundary_restricted obj" for C
    by (simp add: dual_empty [OF assms(1) s] members_simps)
  have n: "\<forall>q C obj. BoundaryRestrictable_dual K q C = Inr obj \<longrightarrow> bnd_ids obj \<noteq> {||}"
    using dual_Inr_nonempty by blast
  have n': "\<forall>q obj. BoundaryRestrictable_standard K q = Inr obj \<longrightarrow> bnd_ids obj \<noteq> {||}"
    unfolding standard_eq_dual using dual_Inr_nonempty by blast
  show ?thesis
    unfolding standard_eq_dual using d n n' [unfolded standard_eq_dual] by blast
qed

theorem empty_input_is_any_and_unrestricted_witness:
  "mesh_of (example_parameters (Some [])) = Some example_mesh
   \<and> boundary (example_parameters (Some [])) = Some []
   \<and> getBoundaryIDs example_mesh [] True = []
   \<and> (\<exists>obj. BoundaryRestrictable_standard example_Moose (example_parameters (Some [])) = Inr obj
             \<and> bnd_ids obj = {|- 1|} \<and> \<not> boundary_restricted obj)
   \<and> BoundaryRestrictable_standard example_Moose (example_parameters (Some [''left'', ''right'']))
       = Inr example_object
   \<and> bnd_ids example_object \<noteq> {||}"
proof -
  let ?p = "example_parameters (Some [])"
  have b: "boundary ?p = Some []"
    by (simp add: example_parameters_simps)
  have g: "getBoundaryIDs example_mesh [] True = []"
    by (simp add: example_mesh_def)
  have h: "boundary ?p = None \<or> (boundary ?p = Some [] \<and> getBoundaryIDs example_mesh [] True = [])"
    using b g by blast
  note t = empty_input_is_any_and_unrestricted [OF example_mesh_of h, of example_Moose "{||}"]
  have e: "\<exists>obj. BoundaryRestrictable_standard example_Moose ?p = Inr obj
             \<and> bnd_ids obj = {|ANY_BOUNDARY_ID example_Moose|} \<and> \<not> boundary_restricted obj"
    using t by blast
  have e': "\<exists>obj. BoundaryRestrictable_standard example_Moose ?p = Inr obj
             \<and> bnd_ids obj = {|- 1|} \<and> \<not> boundary_restricted obj"
    using e by (simp only: example_Moose_simps)
  have ne: "bnd_ids example_object \<noteq> {||}"
    using t example_left_right by blast
  show ?thesis
    using example_mesh_of b g e' example_left_right ne by blast
qed

text \<open>
  C4 (amended). Names without the reserved name whose ids do not include the
  any-sentinel, on an object that the dual-restriction check lets pass (the flag is
  set, or the block set is empty or contains the any-block sentinel; the standard
  constructor always passes): if some of the ids are not among the ids of the mesh,
  the constructor fails with the error that names the object and lists exactly the
  ids that the mesh does not have (the set difference, each id once, in ascending
  order); if all of them are ids of the mesh, the constructor returns an object.
\<close>

theorem ids_missing_from_mesh_are_listed:
  assumes "mesh_of p = Some m" "boundary p = Some names" "''ANY_BOUNDARY_ID'' \<notin> set names"
    and "S = fset_of_list (getBoundaryIDs m names True)" "ANY_BOUNDARY_ID K |\<notin>| S"
    and "dual_restrictable p \<or> B = {||} \<or> ANY_BLOCK_ID K |\<in>| B"
  shows "(S |-| meshBoundaryIds m \<noteq> {||} \<longrightarrow>
            (\<exists>ids. BoundaryRestrictable_standard K p = Inl (BoundaryIdsNotOnMesh (name p) ids)
                 \<and> BoundaryRestrictable_dual K p B = Inl (BoundaryIdsNotOnMesh (name p) ids)
                 \<and> set ids = fset S - fset (meshBoundaryIds m) \<and> sorted ids \<and> distinct ids))
       \<and> (S |-| meshBoundaryIds m = {||} \<longrightarrow>
            (\<exists>obj obj'. BoundaryRestrictable_standard K p = Inr obj
                 \<and> BoundaryRestrictable_dual K p B = Inr obj'
                 \<and> bnd_ids obj = (if S = {||} then {|ANY_BOUNDARY_ID K|} else S)
                 \<and> bnd_ids obj' = (if S = {||} then {|ANY_BOUNDARY_ID K|} else S)))"
proof -
  have s: "supplied_ids K m p = S"
    using assms(1-4) by (simp add: supplied_ids_def)
  have a: "ANY_BOUNDARY_ID K |\<notin>| supplied_ids K m p"
    unfolding s by (rule assms(5))
  have t: "dual_restrictable p \<or> ({||} :: SubdomainID fset) = {||} \<or> ANY_BLOCK_ID K |\<in>| {||}"
    by simp
  note d = dual_concrete [OF assms(1) a assms(6), unfolded s]
  note d0 = dual_concrete [OF assms(1) a t, unfolded s]
  show ?thesis
  proof (intro conjI impI)
    assume ne: "S |-| meshBoundaryIds m \<noteq> {||}"
    let ?ids = "sorted_list_of_fset (S |-| meshBoundaryIds m)"
    have 1: "BoundaryRestrictable_standard K p = Inl (BoundaryIdsNotOnMesh (name p) ?ids)"
      unfolding standard_eq_dual d0 using ne by simp
    have 2: "BoundaryRestrictable_dual K p B = Inl (BoundaryIdsNotOnMesh (name p) ?ids)"
      unfolding d using ne by simp
    have 3: "set ?ids = fset S - fset (meshBoundaryIds m) \<and> sorted ?ids \<and> distinct ?ids"
      using sorted_list_of_fset_lists [of "S |-| meshBoundaryIds m"] by simp
    show "\<exists>ids. BoundaryRestrictable_standard K p = Inl (BoundaryIdsNotOnMesh (name p) ids)
                 \<and> BoundaryRestrictable_dual K p B = Inl (BoundaryIdsNotOnMesh (name p) ids)
                 \<and> set ids = fset S - fset (meshBoundaryIds m) \<and> sorted ids \<and> distinct ids"
      using 1 2 3 by blast
  next
    assume e: "S |-| meshBoundaryIds m = {||}"
    show "\<exists>obj obj'. BoundaryRestrictable_standard K p = Inr obj
                 \<and> BoundaryRestrictable_dual K p B = Inr obj'
                 \<and> bnd_ids obj = (if S = {||} then {|ANY_BOUNDARY_ID K|} else S)
                 \<and> bnd_ids obj' = (if S = {||} then {|ANY_BOUNDARY_ID K|} else S)"
      unfolding standard_eq_dual d d0 using e by simp
  qed
qed

theorem ids_missing_from_mesh_are_listed_witness:
  "mesh_of (example_parameters (Some [''left'', ''nowhere''])) = Some example_mesh
   \<and> boundary (example_parameters (Some [''left'', ''nowhere''])) = Some [''left'', ''nowhere'']
   \<and> ''ANY_BOUNDARY_ID'' \<notin> set [''left'', ''nowhere'']
   \<and> {|2, 9|} = fset_of_list (getBoundaryIDs example_mesh [''left'', ''nowhere''] True)
   \<and> ANY_BOUNDARY_ID example_Moose |\<notin>| {|2, 9|}
   \<and> {|2, 9|} |-| meshBoundaryIds example_mesh \<noteq> {||}
   \<and> (\<exists>ids. BoundaryRestrictable_standard example_Moose (example_parameters (Some [''left'', ''nowhere'']))
               = Inl (BoundaryIdsNotOnMesh ''bc'' ids)
            \<and> set ids = {9})"
proof -
  let ?p = "example_parameters (Some [''left'', ''nowhere''])"
  have b: "boundary ?p = Some [''left'', ''nowhere'']"
    by (simp add: example_parameters_simps)
  have n: "''ANY_BOUNDARY_ID'' \<notin> set [''left'', ''nowhere'']"
    by simp
  have g: "{|2, 9|} = fset_of_list (getBoundaryIDs example_mesh [''left'', ''nowhere''] True)"
    by (simp add: example_mesh_def example_id_def)
  have a: "ANY_BOUNDARY_ID example_Moose |\<notin>| {|2, 9|}"
    by (simp add: example_Moose_simps)
  have t: "dual_restrictable ?p \<or> ({||} :: SubdomainID fset) = {||} \<or> ANY_BLOCK_ID example_Moose |\<in>| {||}"
    by simp
  have d: "{|2, 9|} |-| meshBoundaryIds example_mesh \<noteq> {||}"
    by (auto simp add: example_mesh_def)
  have f: "fset {|2, 9|} - fset (meshBoundaryIds example_mesh) = {9 :: int}"
    by (auto simp add: example_mesh_def)
  have "\<exists>ids. BoundaryRestrictable_standard example_Moose ?p = Inl (BoundaryIdsNotOnMesh (name ?p) ids)
            \<and> set ids = fset {|2, 9|} - fset (meshBoundaryIds example_mesh)"
    using ids_missing_from_mesh_are_listed [OF example_mesh_of b n g a t] d by blast
  then have "\<exists>ids. BoundaryRestrictable_standard example_Moose ?p = Inl (BoundaryIdsNotOnMesh ''bc'' ids)
            \<and> set ids = {9}"
    by (simp only: f example_parameters_simps)
  then show ?thesis
    using example_mesh_of b n g a d by blast
qed

text \<open>
  C4 as stated has every concrete set with an id unknown to the mesh end in the
  error that lists the unknown ids. The dual-restriction check comes first: on the
  example mesh the names \<open>left\<close> and \<open>nowhere\<close> give the ids 2 and 9, the mesh does
  not have 9, and with the block set \<open>{1}\<close> the constructor fails with the
  dual-restriction error, which lists no id.
\<close>

theorem missing_ids_behind_dual_restriction_counterexample:
  "supplied_ids example_Moose example_mesh (example_parameters (Some [''left'', ''nowhere'']))
     = {|2, 9|}
   \<and> ANY_BOUNDARY_ID example_Moose |\<notin>| {|2, 9|}
   \<and> 9 |\<notin>| meshBoundaryIds example_mesh
   \<and> BoundaryRestrictable_dual example_Moose (example_parameters (Some [''left'', ''nowhere''])) {|1|}
       = Inl (AlreadyBlockRestricted ''bc'')"
proof -
  have 1: "supplied_ids example_Moose example_mesh (example_parameters (Some [''left'', ''nowhere'']))
     = {|2, 9|}"
    by (rule example_supplied_ids)
  have 2: "ANY_BOUNDARY_ID example_Moose |\<notin>| {|2, 9|}"
    by (simp add: example_Moose_simps)
  have 3: "9 |\<notin>| meshBoundaryIds example_mesh"
    by (simp add: example_mesh_def)
  have 4: "BoundaryRestrictable_dual example_Moose (example_parameters (Some [''left'', ''nowhere''])) {|1|}
       = Inl (AlreadyBlockRestricted ''bc'')"
    unfolding dual_unfold [OF example_mesh_of]
    by (simp add: example_supplied_ids example_parameters_simps example_Moose_simps)
  show ?thesis
    using 1 2 3 4 by (intro conjI)
qed

text \<open>
  C10. A non-empty list that consists of the reserved name gives an object with the
  any-sentinel alone as its set and marked restricted; without the parameter, or
  with an empty list, the set is the same and the object is not marked restricted.
  The dual restricted constructor gives the same objects whenever it returns one.
\<close>

theorem explicit_any_name_marks_restricted:
  assumes "mesh_of p = Some m" "names \<noteq> []" "set names \<subseteq> {''ANY_BOUNDARY_ID''}"
  shows "(\<exists>named absent.
            BoundaryRestrictable_standard K (p\<lparr>boundary := Some names\<rparr>) = Inr named
          \<and> BoundaryRestrictable_standard K (p\<lparr>boundary := None\<rparr>) = Inr absent
          \<and> bnd_ids named = {|ANY_BOUNDARY_ID K|} \<and> bnd_ids absent = {|ANY_BOUNDARY_ID K|}
          \<and> boundary_restricted named \<and> \<not> boundary_restricted absent)
       \<and> (getBoundaryIDs m [] True = [] \<longrightarrow>
           (\<exists>empty. BoundaryRestrictable_standard K (p\<lparr>boundary := Some []\<rparr>) = Inr empty
              \<and> bnd_ids empty = {|ANY_BOUNDARY_ID K|} \<and> \<not> boundary_restricted empty))
       \<and> (\<forall>obj. BoundaryRestrictable_dual K (p\<lparr>boundary := Some names\<rparr>) B = Inr obj \<longrightarrow>
             bnd_ids obj = {|ANY_BOUNDARY_ID K|} \<and> boundary_restricted obj)
       \<and> (\<exists>obj. BoundaryRestrictable_dual K (p\<lparr>boundary := None\<rparr>) B = Inr obj
             \<and> bnd_ids obj = {|ANY_BOUNDARY_ID K|} \<and> \<not> boundary_restricted obj)"
proof -
  let ?named = "p\<lparr>boundary := Some names\<rparr>" and ?absent = "p\<lparr>boundary := None\<rparr>"
  let ?empty = "p\<lparr>boundary := Some []\<rparr>"
  have mn: "mesh_of ?named = Some m" and ma: "mesh_of ?absent = Some m"
    and me: "mesh_of ?empty = Some m"
    using assms(1) by (simp_all only: mesh_of_boundary_update)
  have "''ANY_BOUNDARY_ID'' \<in> set names"
    using assms(2,3) by (cases names) auto
  then have sn: "supplied_ids K m ?named = {|ANY_BOUNDARY_ID K|}"
    by (simp add: supplied_ids_def)
  have sa: "supplied_ids K m ?absent = {||}"
    by (simp add: supplied_ids_def)
  have se: "getBoundaryIDs m [] True = [] \<Longrightarrow> supplied_ids K m ?empty = {||}"
    by (simp add: supplied_ids_def)
  have a: "ANY_BOUNDARY_ID K |\<in>| supplied_ids K m ?named"
    by (simp add: sn)
  have 1: "\<exists>obj. BoundaryRestrictable_dual K ?named {||} = Inr obj
             \<and> bnd_ids obj = {|ANY_BOUNDARY_ID K|} \<and> boundary_restricted obj"
    by (simp add: dual_any [OF mn a] sn)
  have 2: "\<exists>obj. BoundaryRestrictable_dual K ?absent C = Inr obj
             \<and> bnd_ids obj = {|ANY_BOUNDARY_ID K|} \<and> \<not> boundary_restricted obj" for C
    by (simp only: dual_empty [OF ma sa]) (simp add: members_simps)
  have 3: "getBoundaryIDs m [] True = [] \<longrightarrow>
           (\<exists>obj. BoundaryRestrictable_dual K ?empty {||} = Inr obj
              \<and> bnd_ids obj = {|ANY_BOUNDARY_ID K|} \<and> \<not> boundary_restricted obj)"
  proof
    assume "getBoundaryIDs m [] True = []"
    then have "supplied_ids K m ?empty = {||}" by (rule se)
    then show "\<exists>obj. BoundaryRestrictable_dual K ?empty {||} = Inr obj
              \<and> bnd_ids obj = {|ANY_BOUNDARY_ID K|} \<and> \<not> boundary_restricted obj"
      by (simp only: dual_empty [OF me]) (simp add: members_simps)
  qed
  have 4: "\<forall>obj. BoundaryRestrictable_dual K ?named B = Inr obj \<longrightarrow>
             bnd_ids obj = {|ANY_BOUNDARY_ID K|} \<and> boundary_restricted obj"
  proof (intro allI impI)
    fix obj assume r: "BoundaryRestrictable_dual K ?named B = Inr obj"
    show "bnd_ids obj = {|ANY_BOUNDARY_ID K|} \<and> boundary_restricted obj"
      using dual_Inr_fields(1,2) [OF mn r] by (simp add: sn)
  qed
  show ?thesis
    unfolding standard_eq_dual using 1 2 3 4 by blast
qed

theorem explicit_any_name_marks_restricted_witness:
  "mesh_of (example_parameters None) = Some example_mesh
   \<and> [''ANY_BOUNDARY_ID''] \<noteq> []
   \<and> set [''ANY_BOUNDARY_ID''] \<subseteq> {''ANY_BOUNDARY_ID''}
   \<and> (\<exists>named absent.
         BoundaryRestrictable_standard example_Moose
           ((example_parameters None)\<lparr>boundary := Some [''ANY_BOUNDARY_ID'']\<rparr>) = Inr named
       \<and> BoundaryRestrictable_standard example_Moose
           ((example_parameters None)\<lparr>boundary := None\<rparr>) = Inr absent
       \<and> bnd_ids named = {|- 1|} \<and> bnd_ids absent = {|- 1|}
       \<and> boundary_restricted named \<and> \<not> boundary_restricted absent)"
proof -
  have n: "[''ANY_BOUNDARY_ID''] \<noteq> []"
    by simp
  have s: "set [''ANY_BOUNDARY_ID''] \<subseteq> {''ANY_BOUNDARY_ID''}"
    by simp
  have "\<exists>named absent.
         BoundaryRestrictable_standard example_Moose
           ((example_parameters None)\<lparr>boundary := Some [''ANY_BOUNDARY_ID'']\<rparr>) = Inr named
       \<and> BoundaryRestrictable_standard example_Moose
           ((example_parameters None)\<lparr>boundary := None\<rparr>) = Inr absent
       \<and> bnd_ids named = {|ANY_BOUNDARY_ID example_Moose|}
       \<and> bnd_ids absent = {|ANY_BOUNDARY_ID example_Moose|}
       \<and> boundary_restricted named \<and> \<not> boundary_restricted absent"
    using explicit_any_name_marks_restricted [OF example_mesh_of [of None] n s,
        where K = example_Moose and B = "{||}"]
    by blast
  then have "\<exists>named absent.
         BoundaryRestrictable_standard example_Moose
           ((example_parameters None)\<lparr>boundary := Some [''ANY_BOUNDARY_ID'']\<rparr>) = Inr named
       \<and> BoundaryRestrictable_standard example_Moose
           ((example_parameters None)\<lparr>boundary := None\<rparr>) = Inr absent
       \<and> bnd_ids named = {|- 1|} \<and> bnd_ids absent = {|- 1|}
       \<and> boundary_restricted named \<and> \<not> boundary_restricted absent"
    by (simp only: example_Moose_simps)
  then show ?thesis
    using example_mesh_of n s by blast
qed

section \<open>Claims on the queries\<close>

text \<open>
  C5 (amended). For an object a constructor has returned: if its restriction set
  contains the any-sentinel, the single-id test and the set test (in both modes)
  return true for every query; if the queried set contains the any-sentinel, the
  set test returns true; and the single-id test asked for the any-sentinel itself
  returns true exactly when the restriction set contains the any-sentinel.
\<close>

theorem any_sentinel_in_membership_tests:
  assumes "BoundaryRestrictable_standard K p = Inr obj \<or> BoundaryRestrictable_dual K p B = Inr obj"
  shows "(ANY_BOUNDARY_ID K |\<in>| bnd_ids obj \<longrightarrow> hasBoundary K obj i \<and> hasBoundary_set K obj ids t)
       \<and> (ANY_BOUNDARY_ID K |\<in>| ids \<longrightarrow> hasBoundary_set K obj ids t)
       \<and> (hasBoundary K obj (ANY_BOUNDARY_ID K) \<longleftrightarrow> ANY_BOUNDARY_ID K |\<in>| bnd_ids obj)"
proof -
  have ne: "bnd_ids obj \<noteq> {||}"
    using assms dual_Inr_nonempty unfolding standard_eq_dual by blast
  have 1: "ANY_BOUNDARY_ID K |\<in>| bnd_ids obj \<Longrightarrow> hasBoundary K obj j" for j
    by (simp add: hasBoundary_def)
  have 2: "ANY_BOUNDARY_ID K |\<in>| bnd_ids obj \<Longrightarrow> hasBoundary_set K obj ids t"
  proof (cases t)
    case ALL_TYPE
    assume "ANY_BOUNDARY_ID K |\<in>| bnd_ids obj"
    then show ?thesis unfolding ALL_TYPE hasBoundary_set_all by blast
  next
    case ANY_TYPE
    assume a: "ANY_BOUNDARY_ID K |\<in>| bnd_ids obj"
    show ?thesis
    proof (cases "ids = {||}")
      case True
      then show ?thesis unfolding ANY_TYPE hasBoundary_set_any by blast
    next
      case False
      then obtain j where "j |\<in>| ids" by blast
      then show ?thesis unfolding ANY_TYPE hasBoundary_set_any using 1 [OF a] by blast
    qed
  qed
  have 3: "ANY_BOUNDARY_ID K |\<in>| ids \<Longrightarrow> hasBoundary_set K obj ids t"
    by (simp add: hasBoundary_set_def)
  have 4: "hasBoundary K obj (ANY_BOUNDARY_ID K) \<longleftrightarrow> ANY_BOUNDARY_ID K |\<in>| bnd_ids obj"
    unfolding hasBoundary_nonempty [OF ne] by blast
  show ?thesis using 1 2 3 4 by blast
qed

theorem any_sentinel_in_membership_tests_witness:
  "BoundaryRestrictable_standard example_Moose (example_parameters (Some [''left'', ''right'']))
     = Inr example_object
   \<and> ANY_BOUNDARY_ID example_Moose |\<in>| {|- 1, 9|}
   \<and> hasBoundary_set example_Moose example_object {|- 1, 9|} ALL_TYPE
   \<and> hasBoundary_set example_Moose example_object {|- 1, 9|} ANY_TYPE"
proof -
  have a: "ANY_BOUNDARY_ID example_Moose |\<in>| {|- 1, 9|}"
    by (simp add: example_Moose_simps)
  note t = any_sentinel_in_membership_tests [OF disjI1 [OF example_left_right],
      where ids = "{|- 1, 9|}"]
  have "hasBoundary_set example_Moose example_object {|- 1, 9|} ALL_TYPE"
    using t [where t = ALL_TYPE] a by blast
  moreover have "hasBoundary_set example_Moose example_object {|- 1, 9|} ANY_TYPE"
    using t [where t = ANY_TYPE] a by blast
  ultimately show ?thesis
    using example_left_right a by blast
qed

text \<open>
  C5 as stated has the single-id test return true for the any-sentinel as the
  queried id. The object restricted to the ids 2 and 4 answers false.
\<close>

theorem queried_any_sentinel_counterexample:
  "BoundaryRestrictable_standard example_Moose (example_parameters (Some [''left'', ''right'']))
     = Inr example_object
   \<and> \<not> hasBoundary example_Moose example_object (ANY_BOUNDARY_ID example_Moose)"
  by (simp add: example_left_right hasBoundary_def example_object_simps example_Moose_simps)

text \<open>
  C6 (amended). For an object a constructor has returned, the set test in
  \<^verbatim>\<open>ALL\<close> mode is true exactly when the queried set contains the any-sentinel, or
  the object's set contains it, or every queried id is in the object's set (which
  includes the empty query); in \<^verbatim>\<open>ANY\<close> mode it is true exactly when the queried
  set is empty or contains the any-sentinel, or the object's set contains it, or
  some queried id is in the object's set.
\<close>

theorem set_test_all_and_any_mode:
  assumes "BoundaryRestrictable_standard K p = Inr obj \<or> BoundaryRestrictable_dual K p B = Inr obj"
  shows "(hasBoundary_set K obj ids ALL_TYPE \<longleftrightarrow>
            ANY_BOUNDARY_ID K |\<in>| ids \<or> ANY_BOUNDARY_ID K |\<in>| bnd_ids obj \<or> ids |\<subseteq>| bnd_ids obj)
       \<and> (hasBoundary_set K obj ids ANY_TYPE \<longleftrightarrow>
            ids = {||} \<or> ANY_BOUNDARY_ID K |\<in>| ids \<or> ANY_BOUNDARY_ID K |\<in>| bnd_ids obj
            \<or> ids |\<inter>| bnd_ids obj \<noteq> {||})"
proof -
  have ne: "bnd_ids obj \<noteq> {||}"
    using assms dual_Inr_nonempty unfolding standard_eq_dual by blast
  have 1: "hasBoundary_set K obj ids ALL_TYPE \<longleftrightarrow>
            ANY_BOUNDARY_ID K |\<in>| ids \<or> ANY_BOUNDARY_ID K |\<in>| bnd_ids obj \<or> ids |\<subseteq>| bnd_ids obj"
    unfolding hasBoundary_set_all by blast
  have 2: "hasBoundary_set K obj ids ANY_TYPE \<longleftrightarrow>
            ids = {||} \<or> ANY_BOUNDARY_ID K |\<in>| ids \<or> ANY_BOUNDARY_ID K |\<in>| bnd_ids obj
            \<or> ids |\<inter>| bnd_ids obj \<noteq> {||}"
    unfolding hasBoundary_set_any hasBoundary_nonempty [OF ne] by blast
  show ?thesis using 1 2 by blast
qed

theorem set_test_all_and_any_mode_witness:
  "BoundaryRestrictable_standard example_Moose (example_parameters (Some [''left'', ''right'']))
     = Inr example_object
   \<and> hasBoundary_set example_Moose example_object {|2|} ALL_TYPE
   \<and> \<not> hasBoundary_set example_Moose example_object {|2, 9|} ALL_TYPE
   \<and> hasBoundary_set example_Moose example_object {|2, 9|} ANY_TYPE
   \<and> \<not> hasBoundary_set example_Moose example_object {|9|} ANY_TYPE"
proof -
  note t = set_test_all_and_any_mode [OF disjI1 [OF example_left_right]]
  have 1: "hasBoundary_set example_Moose example_object {|2|} ALL_TYPE"
    unfolding t [THEN conjunct1] by (simp add: example_object_simps)
  have 2: "\<not> hasBoundary_set example_Moose example_object {|2, 9|} ALL_TYPE"
    unfolding t [THEN conjunct1] by (simp add: example_object_simps example_Moose_simps)
  have 3: "hasBoundary_set example_Moose example_object {|2, 9|} ANY_TYPE"
    unfolding t [THEN conjunct2] by (simp add: example_object_simps)
  have 4: "\<not> hasBoundary_set example_Moose example_object {|9|} ANY_TYPE"
    unfolding t [THEN conjunct2] by (simp add: example_object_simps example_Moose_simps)
  show ?thesis
    using example_left_right 1 2 3 4 by blast
qed

text \<open>
  C6 as stated makes the \<^verbatim>\<open>ANY\<close> mode true only if some queried id matches. The
  empty query is answered true by the object restricted to the ids 2 and 4: no
  queried id is in its set, and the object is not any-restricted.
\<close>

theorem empty_query_any_mode_counterexample:
  "BoundaryRestrictable_standard example_Moose (example_parameters (Some [''left'', ''right'']))
     = Inr example_object
   \<and> hasBoundary_set example_Moose example_object {||} ANY_TYPE
   \<and> {||} |\<inter>| bnd_ids example_object = {||}
   \<and> ANY_BOUNDARY_ID example_Moose |\<notin>| bnd_ids example_object"
  by (simp add: example_left_right hasBoundary_set_def example_object_simps example_Moose_simps)

text \<open>
  C9. For an object a constructor has returned, on the mesh \<open>m\<close>:
  \<^verbatim>\<open>isBoundarySubset\<close> is true for an empty set and for a set with the
  any-sentinel; for any other set it tells whether the set includes the object's
  restriction set when that is concrete, and whether it includes all ids of the
  mesh when the object is any-restricted.
\<close>

theorem boundary_subset_test:
  assumes "BoundaryRestrictable_standard K p = Inr obj \<or> BoundaryRestrictable_dual K p B = Inr obj"
    and "mesh_of p = Some m"
  shows "(S = {||} \<or> ANY_BOUNDARY_ID K |\<in>| S \<longrightarrow> isBoundarySubset K obj S = Some True)
       \<and> (S \<noteq> {||} \<and> ANY_BOUNDARY_ID K |\<notin>| S \<and> ANY_BOUNDARY_ID K |\<notin>| bnd_ids obj \<longrightarrow>
            isBoundarySubset K obj S = Some (bnd_ids obj |\<subseteq>| S))
       \<and> (S \<noteq> {||} \<and> ANY_BOUNDARY_ID K |\<notin>| S \<and> ANY_BOUNDARY_ID K |\<in>| bnd_ids obj \<longrightarrow>
            isBoundarySubset K obj S = Some (meshBoundaryIds m |\<subseteq>| S))"
proof -
  have "\<exists>C. BoundaryRestrictable_dual K p C = Inr obj"
    using assms(1) unfolding standard_eq_dual by blast
  then obtain C where r: "BoundaryRestrictable_dual K p C = Inr obj" ..
  have mesh: "bnd_mesh obj = Some m"
    by (rule dual_Inr_fields(3) [OF assms(2) r])
  have 1: "S = {||} \<or> ANY_BOUNDARY_ID K |\<in>| S \<longrightarrow> isBoundarySubset K obj S = Some True"
    by (simp add: isBoundarySubset_def)
  have 2: "S \<noteq> {||} \<and> ANY_BOUNDARY_ID K |\<notin>| S \<and> ANY_BOUNDARY_ID K |\<notin>| bnd_ids obj \<longrightarrow>
            isBoundarySubset K obj S = Some (bnd_ids obj |\<subseteq>| S)"
    by (simp add: isBoundarySubset_def std_includes_fset)
  have 3: "S \<noteq> {||} \<and> ANY_BOUNDARY_ID K |\<notin>| S \<and> ANY_BOUNDARY_ID K |\<in>| bnd_ids obj \<longrightarrow>
            isBoundarySubset K obj S = Some (meshBoundaryIds m |\<subseteq>| S)"
    by (simp add: isBoundarySubset_def std_includes_fset mesh)
  show ?thesis using 1 2 3 by blast
qed

theorem boundary_subset_test_witness:
  "BoundaryRestrictable_standard example_Moose (example_parameters (Some [''left'', ''right'']))
     = Inr example_object
   \<and> mesh_of (example_parameters (Some [''left'', ''right''])) = Some example_mesh
   \<and> isBoundarySubset example_Moose example_object {|1, 2, 3, 4|} = Some True
   \<and> isBoundarySubset example_Moose example_object {|2, 3|} = Some False
   \<and> isBoundarySubset example_Moose example_object {||} = Some True"
proof -
  note t = boundary_subset_test [OF disjI1 [OF example_left_right] example_mesh_of]
  have c: "ANY_BOUNDARY_ID example_Moose |\<notin>| bnd_ids example_object"
    by (simp add: example_object_simps example_Moose_simps)
  have "{|1, 2, 3, 4|} \<noteq> {||} \<and> ANY_BOUNDARY_ID example_Moose |\<notin>| {|1, 2, 3, 4|}"
    by (simp add: example_Moose_simps)
  then have "isBoundarySubset example_Moose example_object {|1, 2, 3, 4|}
      = Some (bnd_ids example_object |\<subseteq>| {|1, 2, 3, 4|})"
    using t [of "{|1, 2, 3, 4|}"] c by blast
  then have 1: "isBoundarySubset example_Moose example_object {|1, 2, 3, 4|} = Some True"
    by (simp add: example_object_simps)
  have "{|2, 3|} \<noteq> {||} \<and> ANY_BOUNDARY_ID example_Moose |\<notin>| {|2, 3|}"
    by (simp add: example_Moose_simps)
  then have "isBoundarySubset example_Moose example_object {|2, 3|}
      = Some (bnd_ids example_object |\<subseteq>| {|2, 3|})"
    using t [of "{|2, 3|}"] c by blast
  then have 2: "isBoundarySubset example_Moose example_object {|2, 3|} = Some False"
    by (simp add: example_object_simps)
  have 3: "isBoundarySubset example_Moose example_object {||} = Some True"
    using t [of "{||}"] by blast
  show ?thesis
    using example_left_right example_mesh_of 1 2 3 by blast
qed

section \<open>Claims on the property container\<close>

text \<open>
  C7. Let the two element functions fit together: reading what was written for a
  value gives that value back and leaves the bytes behind it unread, as holds for
  a scalar numeric type. Then storing a property of \<open>N\<close> elements to a stream and
  loading the stream into a property of \<open>N\<close> elements gives the destination the
  \<open>N\<close> values of the source, element by element in their order; the bytes that
  followed in the stream are left unread, and no other cell of the storage changes.
\<close>

theorem store_then_load_reproduces_values:
  assumes "\<And>v old rest. L (S v @ rest) old = (v, rest)"
    and "size' dst = size' src"
  shows "\<exists>st''. load L st' dst (store S st src [] @ rest) = (st'', rest)
           \<and> (\<forall>i < size' src. prop_at st'' dst i = prop_at st src i)
           \<and> (\<forall>b k. b \<noteq> arr_data (prop_value dst) \<or> size' src \<le> k \<longrightarrow> st'' b k = st' b k)"
proof -
  let ?f = "\<lambda>k. MooseArray_at st (prop_value src) k"
  have n: "arr_size (prop_value dst) = arr_size (prop_value src)"
    using assms(2) by (simp add: size'_def)
  have w: "store S st src [] = concat (map (\<lambda>k. S (?f k)) [0..<arr_size (prop_value dst)])"
    by (simp add: store_def store_loop_eq n)
  have r: "load L st' dst (store S st src [] @ rest) =
      (\<lambda>b k. if b = arr_data (prop_value dst) \<and> 0 \<le> k \<and> k < arr_size (prop_value dst)
              then ?f k else st' b k, rest)"
    unfolding load_def w by (rule load_loop_eq [OF assms(1)])
  show ?thesis
    unfolding r by (auto simp add: prop_at_def MooseArray_at_def size'_def n)
qed

theorem store_then_load_reproduces_values_witness:
  "(\<forall>v old rest. load_uint (store_uint v @ rest) old = (v, rest))
   \<and> size' (example_property ''j'' 1 3) = size' (example_property ''j'' 0 3)
   \<and> (\<exists>st''. load load_uint example_storage (example_property ''j'' 1 3)
                (store store_uint example_storage (example_property ''j'' 0 3) [] @ []) = (st'', [])
            \<and> prop_at st'' (example_property ''j'' 1 3) 0 = 7
            \<and> prop_at st'' (example_property ''j'' 1 3) 1 = 4294967295
            \<and> prop_at st'' (example_property ''j'' 1 3) 2 = 256)"
proof -
  let ?src = "example_property ''j'' 0 3" and ?dst = "example_property ''j'' 1 3"
  have e: "\<And>v old rest. load_uint (store_uint v @ rest) old = (v, rest)"
    by (rule load_store_uint)
  have n: "size' ?dst = size' ?src"
    by (simp add: example_property_simps)
  obtain st'' where l: "load load_uint example_storage ?dst
        (store store_uint example_storage ?src [] @ []) = (st'', [])"
    and v: "\<forall>i < size' ?src. prop_at st'' ?dst i = prop_at example_storage ?src i"
    using store_then_load_reproduces_values [where L = load_uint and S = store_uint
        and st' = example_storage and st = example_storage and rest = "[]", OF e n]
    by blast
  have s: "prop_at example_storage ?src 0 = 7" "prop_at example_storage ?src 1 = 4294967295"
    "prop_at example_storage ?src 2 = 256"
    by (simp_all add: prop_at_def MooseArray_at_def example_property_def example_storage_def)
  have "prop_at st'' ?dst 0 = 7 \<and> prop_at st'' ?dst 1 = 4294967295 \<and> prop_at st'' ?dst 2 = 256"
    using v s by (simp add: example_property_simps)
  then show ?thesis
    using e n l by blast
qed





end
